theory Spec2Isabelle
  imports Complex_Main "HOL-Library.AList"
begin

section \<open>Python values\<close>

text \<open>
  The module \<open>weather_utils.py\<close> works on untyped dictionaries (\<open>Dict[str, Any]\<close>):
  the JSON body of the Open-Meteo answer and the flat weather record built from it.
  The values that can sit in such a dictionary are modelled by one datatype.

  A Python \<open>float\<close> is a rational number, one of the two infinities, or NaN; a float
  literal such as \<open>-5.2\<close> stands for the number the JSON decoder produced for it, and no
  rounding is modelled (the module does no arithmetic, it only compares and copies).
  A \<open>datetime\<close> is the tuple of its fields; the module never looks inside one.
  A dictionary is an association list in insertion order, read with \<open>map_of\<close>.
\<close>

datatype pyfloat = Finite rat | PosInf | NegInf | NaN

datatype datetime =
  Datetime (year: nat) (month: nat) (day: nat) (hour: nat) (minute: nat) (second: nat)
    (microsecond: nat) (utcoffset: "int option")

datatype pyval =
    PNone
  | PBool bool
  | PInt int
  | PFloat pyfloat
  | PStr string
  | PDatetime datetime
  | PList "pyval list"
  | PDict "(string \<times> pyval) list"

type_synonym pydict = "(string \<times> pyval) list"

text \<open>
  The exceptions that the module's own operations raise, and those of its collaborators
  (the HTTP client and the JSON decoder). All of them are subclasses of Python's
  \<open>Exception\<close>, which is what the handlers \<open>except Exception\<close> of the module catch.
\<close>

datatype pyexc =
    AttributeError
  | TypeError
  | ValueError
  | KeyError
  | ConnectionError
  | Timeout
  | HTTPError
  | JSONDecodeError
  | OtherException string

text \<open>A line written by \<open>print(f"<prefix>{e}")\<close>: the prefix and the exception formatted.\<close>

datatype printed = Print string pyexc

subsection \<open>Operations of the language used by the module\<close>

text \<open>\<open>bool(v)\<close>, as \<open>not v\<close> and \<open>if v\<close> compute it.\<close>

fun truthy :: "pyval \<Rightarrow> bool" where
  "truthy PNone = False"
| "truthy (PBool b) = b"
| "truthy (PInt i) = (i \<noteq> 0)"
| "truthy (PFloat f) = (f \<noteq> Finite 0)"
| "truthy (PStr s) = (s \<noteq> [])"
| "truthy (PDatetime d) = True"
| "truthy (PList xs) = (xs \<noteq> [])"
| "truthy (PDict kvs) = (kvs \<noteq> [])"

text \<open>\<open>d.get(key, default)\<close> on a dictionary.\<close>

definition dict_get :: "pydict \<Rightarrow> string \<Rightarrow> pyval \<Rightarrow> pyval" where
  "dict_get d key dflt = (case map_of d key of None \<Rightarrow> dflt | Some v \<Rightarrow> v)"

text \<open>
  \<open>v.get(key, default)\<close> on any value: only a dictionary has the method, every other
  value raises \<open>AttributeError\<close>.
\<close>

fun py_get :: "pyval \<Rightarrow> string \<Rightarrow> pyval \<Rightarrow> pyexc + pyval" where
  "py_get (PDict d) key dflt = Inr (dict_get d key dflt)"
| "py_get v key dflt = Inl AttributeError"

text \<open>\<open>d[key]\<close> on a dictionary: \<open>KeyError\<close> when the key is missing.\<close>

definition dict_getitem :: "pydict \<Rightarrow> string \<Rightarrow> pyexc + pyval" where
  "dict_getitem d key = (case map_of d key of None \<Rightarrow> Inl KeyError | Some v \<Rightarrow> Inr v)"

text \<open>
  The comparisons \<open>i <= v\<close> and \<open>v <= i\<close> of an integer literal with a value. Integers,
  booleans (\<open>True\<close> is 1) and floats compare by their exact value, every comparison
  with NaN is false, and any other operand raises \<open>TypeError\<close>.
\<close>

fun int_le_float :: "int \<Rightarrow> pyfloat \<Rightarrow> bool" where
  "int_le_float i (Finite q) = (of_int i \<le> q)"
| "int_le_float i PosInf = True"
| "int_le_float i NegInf = False"
| "int_le_float i NaN = False"

fun float_le_int :: "pyfloat \<Rightarrow> int \<Rightarrow> bool" where
  "float_le_int (Finite q) i = (q \<le> of_int i)"
| "float_le_int PosInf i = False"
| "float_le_int NegInf i = True"
| "float_le_int NaN i = False"

fun py_int_le :: "int \<Rightarrow> pyval \<Rightarrow> pyexc + bool" where
  "py_int_le i (PInt j) = Inr (i \<le> j)"
| "py_int_le i (PBool b) = Inr (i \<le> (if b then 1 else 0))"
| "py_int_le i (PFloat f) = Inr (int_le_float i f)"
| "py_int_le i v = Inl TypeError"

fun py_le_int :: "pyval \<Rightarrow> int \<Rightarrow> pyexc + bool" where
  "py_le_int (PInt j) i = Inr (j \<le> i)"
| "py_le_int (PBool b) i = Inr ((if b then 1 else 0) \<le> i)"
| "py_le_int (PFloat f) i = Inr (float_le_int f i)"
| "py_le_int v i = Inl TypeError"

text \<open>
  The chained comparison \<open>lo <= v <= hi\<close>: \<open>v\<close> is evaluated once, and \<open>v <= hi\<close> is
  evaluated only when \<open>lo <= v\<close> is true.
\<close>

definition chained_le :: "int \<Rightarrow> pyval \<Rightarrow> int \<Rightarrow> pyexc + bool" where
  "chained_le lo v hi =
     (case py_int_le lo v of
        Inl e \<Rightarrow> Inl e
      | Inr b \<Rightarrow> if b then py_le_int v hi else Inr False)"

section \<open>The collaborators: clock, ISO-8601 codec, HTTP client\<close>

text \<open>
  The module calls code that is not its own: \<open>datetime.now\<close>, \<open>datetime.isoformat\<close>,
  \<open>datetime.fromisoformat\<close> and \<open>requests.get\<close>. They are parameters of the model:
  \<^item> \<open>now env n\<close> is what the \<open>n\<close>-th call of \<open>datetime.now()\<close> made by one invocation
    returns (counting from 0);
  \<^item> \<open>isoformat env d\<close> is \<open>d.isoformat()\<close>;
  \<^item> \<open>fromisoformat env s\<close> is \<open>datetime.fromisoformat(s)\<close> on a string, \<open>None\<close> when
    the library raises \<open>ValueError\<close>;
  \<^item> \<open>requests_get env url params timeout\<close> is \<open>requests.get(url, params=params,
    timeout=timeout)\<close>: an exception or a response.
  A response answers \<open>raise_for_status()\<close> with the exception it raises, if any, and
  \<open>json()\<close> with an exception or the decoded body.
\<close>

datatype response =
  Response (raise_for_status: "pyexc option") (json: "pyexc + pyval")

record pyenv =
  now :: "nat \<Rightarrow> datetime"
  isoformat :: "datetime \<Rightarrow> string"
  fromisoformat :: "string \<Rightarrow> datetime option"
  requests_get :: "string \<Rightarrow> pydict \<Rightarrow> int \<Rightarrow> pyexc + response"

text \<open>
  \<open>datetime.fromisoformat(v)\<close> on any value: \<open>TypeError\<close> unless \<open>v\<close> is a string,
  \<open>ValueError\<close> when the string is not an ISO-8601 date.
\<close>

fun py_fromisoformat :: "pyenv \<Rightarrow> pyval \<Rightarrow> pyexc + datetime" where
  "py_fromisoformat env (PStr s) =
     (case fromisoformat env s of None \<Rightarrow> Inl ValueError | Some d \<Rightarrow> Inr d)"
| "py_fromisoformat env v = Inl TypeError"

text \<open>Sequencing of two steps of which the first may raise.\<close>

definition exc_bind :: "pyexc + 'a \<Rightarrow> ('a \<Rightarrow> pyexc + 'b) \<Rightarrow> pyexc + 'b" where
  "exc_bind m f = (case m of Inl e \<Rightarrow> Inl e | Inr x \<Rightarrow> f x)"

section \<open>\<open>fetch_weather_data\<close>\<close>

definition CALGARY_LAT :: pyval where
  "CALGARY_LAT = PFloat (Finite 51.0447)"

definition CALGARY_LON :: pyval where
  "CALGARY_LON = PFloat (Finite (-114.0719))"

definition WEATHER_API_URL :: string where
  "WEATHER_API_URL = ''https://api.open-meteo.com/v1/forecast''"

definition request_params :: "pyval \<Rightarrow> pyval \<Rightarrow> string \<Rightarrow> pydict" where
  "request_params latitude longitude timezone =
    [(''latitude'', latitude),
     (''longitude'', longitude),
     (''current'',
        PStr ''temperature_2m,relative_humidity_2m,wind_speed_10m,wind_direction_10m,weather_code''),
     (''timezone'', PStr timezone)]"

text \<open>
  The body of the \<open>try\<close> block: \<open>Inl e\<close> when \<open>e\<close> is raised inside it, \<open>Inr r\<close> when
  it returns the record \<open>r\<close>. The entries of the dictionary display are evaluated in
  the order written, so the fallback for \<open>time\<close> reads the clock first and
  \<open>fetch_time\<close> reads it second.
\<close>

definition fetch_weather_data_try ::
  "pyenv \<Rightarrow> pyval \<Rightarrow> pyval \<Rightarrow> string \<Rightarrow> string \<Rightarrow> string \<Rightarrow> int \<Rightarrow> pyexc + pydict" where
  "fetch_weather_data_try env latitude longitude city timezone api_url timeout =
     exc_bind (requests_get env api_url (request_params latitude longitude timezone) timeout)
      (\<lambda>response.
     (case raise_for_status response of
        Some e \<Rightarrow> Inl e
      | None \<Rightarrow>
     exc_bind (json response) (\<lambda>data.
     exc_bind (py_get data ''current'' (PDict [])) (\<lambda>current.
     exc_bind (py_get current ''time'' (PStr (isoformat env (now env 0)))) (\<lambda>time.
     exc_bind (py_fromisoformat env time) (\<lambda>timestamp.
     exc_bind (py_get current ''temperature_2m'' PNone) (\<lambda>temperature.
     exc_bind (py_get current ''relative_humidity_2m'' PNone) (\<lambda>humidity.
     exc_bind (py_get current ''wind_speed_10m'' PNone) (\<lambda>wind_speed.
     exc_bind (py_get current ''wind_direction_10m'' PNone) (\<lambda>wind_direction.
     exc_bind (py_get current ''weather_code'' PNone) (\<lambda>weather_code.
       Inr [(''timestamp'', PDatetime timestamp),
            (''latitude'', latitude),
            (''longitude'', longitude),
            (''temperature'', temperature),
            (''humidity'', humidity),
            (''wind_speed'', wind_speed),
            (''wind_direction'', wind_direction),
            (''weather_code'', weather_code),
            (''city'', PStr city),
            (''fetch_time'', PDatetime (now env 1))])))))))))))"

text \<open>
  The whole function: the value returned (\<open>None\<close> is Python's \<open>None\<close>) and the lines
  printed. The handler \<open>except Exception\<close> prints one line and returns \<open>None\<close>.
\<close>

definition fetch_weather_data ::
  "pyenv \<Rightarrow> pyval \<Rightarrow> pyval \<Rightarrow> string \<Rightarrow> string \<Rightarrow> string \<Rightarrow> int
    \<Rightarrow> pydict option \<times> printed list" where
  "fetch_weather_data env latitude longitude city timezone api_url timeout =
     (case fetch_weather_data_try env latitude longitude city timezone api_url timeout of
        Inl e \<Rightarrow> (None, [Print ''Error fetching weather data: '' e])
      | Inr r \<Rightarrow> (Some r, []))"

section \<open>\<open>parse_weather_response\<close>\<close>

text \<open>
  The body of the \<open>try\<close> block: \<open>Inr None\<close> is the early \<open>return None\<close> taken when
  \<open>current\<close> is falsy.
\<close>

definition parse_weather_response_try :: "pyenv \<Rightarrow> pydict \<Rightarrow> string \<Rightarrow> pyexc + pydict option" where
  "parse_weather_response_try env api_response city =
     (let current = dict_get api_response ''current'' (PDict []) in
      if \<not> truthy current then Inr None
      else
     exc_bind (py_get current ''time'' (PStr (isoformat env (now env 0)))) (\<lambda>time.
     exc_bind (py_fromisoformat env time) (\<lambda>timestamp.
     exc_bind (py_get current ''temperature_2m'' PNone) (\<lambda>temperature.
     exc_bind (py_get current ''relative_humidity_2m'' PNone) (\<lambda>humidity.
     exc_bind (py_get current ''wind_speed_10m'' PNone) (\<lambda>wind_speed.
     exc_bind (py_get current ''wind_direction_10m'' PNone) (\<lambda>wind_direction.
     exc_bind (py_get current ''weather_code'' PNone) (\<lambda>weather_code.
       Inr (Some
           [(''timestamp'', PDatetime timestamp),
            (''latitude'', dict_get api_response ''latitude'' PNone),
            (''longitude'', dict_get api_response ''longitude'' PNone),
            (''temperature'', temperature),
            (''humidity'', humidity),
            (''wind_speed'', wind_speed),
            (''wind_direction'', wind_direction),
            (''weather_code'', weather_code),
            (''city'', PStr city),
            (''fetch_time'', PDatetime (now env 1))])))))))))"

definition parse_weather_response :: "pyenv \<Rightarrow> pydict \<Rightarrow> string \<Rightarrow> pydict option \<times> printed list" where
  "parse_weather_response env api_response city =
     (case parse_weather_response_try env api_response city of
        Inl e \<Rightarrow> (None, [Print ''Error parsing weather response: '' e])
      | Inr r \<Rightarrow> (r, []))"

section \<open>\<open>validate_weather_record\<close>\<close>

definition required_fields :: "string list" where
  "required_fields = [''timestamp'', ''latitude'', ''longitude'', ''temperature'', ''city'']"

text \<open>
  The loop \<open>for field in required_fields\<close>. \<open>Some b\<close> is an early \<open>return b\<close>;
  \<open>None\<close> means the loop ran to its end. The subscript \<open>record[field]\<close> is only
  evaluated when the key is present (\<open>or\<close> short-circuits).
\<close>

fun check_required :: "pydict \<Rightarrow> string list \<Rightarrow> bool option" where
  "check_required record [] = None"
| "check_required record (field # rest) =
     (case map_of record field of
        None \<Rightarrow> Some False
      | Some v \<Rightarrow> if v = PNone then Some False else check_required record rest)"

text \<open>The expression \<open>lo <= record[field] <= hi\<close>.\<close>

definition range_check :: "int \<Rightarrow> pydict \<Rightarrow> string \<Rightarrow> int \<Rightarrow> pyexc + bool" where
  "range_check lo record field hi =
     (case dict_getitem record field of
        Inl e \<Rightarrow> Inl e
      | Inr v \<Rightarrow> chained_le lo v hi)"

text \<open>
  The argument is a dictionary or \<open>None\<close>. The result is \<open>Inr b\<close> when the function
  returns \<open>b\<close> and \<open>Inl e\<close> when the exception \<open>e\<close> leaves it: the function has no
  handler of its own.
\<close>

fun validate_weather_record :: "pydict option \<Rightarrow> pyexc + bool" where
  "validate_weather_record None = Inr False"
| "validate_weather_record (Some record) =
     (case check_required record required_fields of
        Some b \<Rightarrow> Inr b
      | None \<Rightarrow>
         (case range_check (-90) record ''latitude'' 90 of
            Inl e \<Rightarrow> Inl e
          | Inr lat_ok \<Rightarrow>
             if \<not> lat_ok then Inr False
             else
               (case range_check (-180) record ''longitude'' 180 of
                  Inl e \<Rightarrow> Inl e
                | Inr lon_ok \<Rightarrow>
                   if \<not> lon_ok then Inr False
                   else
                     (case range_check (-100) record ''temperature'' 60 of
                        Inl e \<Rightarrow> Inl e
                      | Inr temp_ok \<Rightarrow>
                         if \<not> temp_ok then Inr False else Inr True))))"

section \<open>\<open>get_weather_description\<close>\<close>

definition weather_codes :: "(int \<times> string) list" where
  "weather_codes =
    [(0, ''Clear sky''),
     (1, ''Mainly clear''),
     (2, ''Partly cloudy''),
     (3, ''Overcast''),
     (45, ''Fog''),
     (48, ''Depositing rime fog''),
     (51, ''Light drizzle''),
     (53, ''Moderate drizzle''),
     (55, ''Dense drizzle''),
     (61, ''Slight rain''),
     (63, ''Moderate rain''),
     (65, ''Heavy rain''),
     (71, ''Slight snow''),
     (73, ''Moderate snow''),
     (75, ''Heavy snow''),
     (77, ''Snow grains''),
     (80, ''Slight rain showers''),
     (81, ''Moderate rain showers''),
     (82, ''Violent rain showers''),
     (85, ''Slight snow showers''),
     (86, ''Heavy snow showers''),
     (95, ''Thunderstorm''),
     (96, ''Thunderstorm with slight hail''),
     (99, ''Thunderstorm with heavy hail'')]"

definition get_weather_description :: "int \<Rightarrow> string" where
  "get_weather_description weather_code =
     (case map_of weather_codes weather_code of None \<Rightarrow> ''Unknown'' | Some s \<Rightarrow> s)"

section \<open>Vocabulary of the properties\<close>

text \<open>
  The numbers of Python: \<open>int\<close>, \<open>bool\<close> (a subclass of \<open>int\<close>) and \<open>float\<close>. The data
  model types \<open>latitude\<close>, \<open>longitude\<close> and \<open>temperature\<close> as numbers.
\<close>

fun is_number :: "pyval \<Rightarrow> bool" where
  "is_number (PInt i) = True"
| "is_number (PBool b) = True"
| "is_number (PFloat f) = True"
| "is_number v = False"

text \<open>
  The value is a number that lies in the closed interval from \<open>lo\<close> to \<open>hi\<close>. NaN and
  the infinities lie in no interval, and neither does a value that is not a number.
\<close>

fun in_closed_interval :: "int \<Rightarrow> int \<Rightarrow> pyval \<Rightarrow> bool" where
  "in_closed_interval lo hi (PInt i) = (lo \<le> i \<and> i \<le> hi)"
| "in_closed_interval lo hi (PBool b) = (lo \<le> (if b then 1 else 0) \<and> (if b then 1 else 0) \<le> hi)"
| "in_closed_interval lo hi (PFloat (Finite q)) = (of_int lo \<le> q \<and> q \<le> of_int hi)"
| "in_closed_interval lo hi v = False"

subsection \<open>Inputs of the test suite\<close>

text \<open>
  The raw response of end-to-end scenario A (the fixture \<open>sample_api_response\<close> of the
  tests without its unused \<open>timezone\<close> entry).
\<close>

definition scenario_A_response :: pydict where
  "scenario_A_response =
    [(''latitude'', PFloat (Finite 51.05)),
     (''longitude'', PFloat (Finite (-114.05))),
     (''current'', PDict
        [(''time'', PStr ''2025-01-28T10:00''),
         (''temperature_2m'', PFloat (Finite (-5.2))),
         (''relative_humidity_2m'', PInt 72),
         (''wind_speed_10m'', PFloat (Finite 15.5)),
         (''wind_direction_10m'', PInt 270),
         (''weather_code'', PInt 3)])]"

text \<open>
  The test double of the tests: \<open>requests.get\<close> is patched to give one fixed answer
  whatever it is asked. The clock starts at 2025-01-28 10:05:00 and advances by one
  second at each reading. The ISO-8601 codec is given on the values that occur: the
  first reading of the clock is the only one formatted, and two strings are decoded.
\<close>

definition mock_env :: "(pyexc + response) \<Rightarrow> pyenv" where
  "mock_env answer =
    \<lparr> now = (\<lambda>n. Datetime 2025 1 28 10 5 n 0 None),
      isoformat = (\<lambda>d. ''2025-01-28T10:05:00''),
      fromisoformat = (\<lambda>s.
        if s = ''2025-01-28T10:00'' then Some (Datetime 2025 1 28 10 0 0 0 None)
        else if s = ''2025-01-28T10:05:00'' then Some (Datetime 2025 1 28 10 5 0 0 None)
        else None),
      requests_get = (\<lambda>url params timeout. answer) \<rparr>"

section \<open>Sequencing\<close>

lemma exc_bind_Inl [simp]: "exc_bind (Inl e) f = Inl e"
  by (simp add: exc_bind_def)

lemma exc_bind_Inr [simp]: "exc_bind (Inr x) f = f x"
  by (simp add: exc_bind_def)

lemma exc_bind_eq_Inr: "exc_bind m f = Inr y \<longleftrightarrow> (\<exists>x. m = Inr x \<and> f x = Inr y)"
  by (cases m) simp_all

section \<open>Properties of \<open>validate_weather_record\<close>\<close>

subsection \<open>The loop over the required fields\<close>

lemma check_required_missing:
  "field \<in> set fs \<Longrightarrow> map_of r field = None \<or> map_of r field = Some PNone
     \<Longrightarrow> check_required r fs = Some False"
  by (induction fs) (auto split: option.splits)

lemma check_required_present:
  "(\<forall>field \<in> set fs. \<exists>v. map_of r field = Some v \<and> v \<noteq> PNone)
     \<Longrightarrow> check_required r fs = None"
  by (induction fs) (auto split: option.splits)

lemma check_required_agree:
  "(\<forall>field \<in> set fs. map_of r1 field = map_of r2 field)
     \<Longrightarrow> check_required r1 fs = check_required r2 fs"
  by (induction fs) (auto split: option.splits)

subsection \<open>The range checks\<close>

lemma chained_le_number:
  "is_number v \<Longrightarrow> chained_le lo v hi = Inr (in_closed_interval lo hi v)"
  by (cases v; cases "case v of PFloat f \<Rightarrow> f | _ \<Rightarrow> NaN") (auto simp: chained_le_def)

lemma chained_le_not_number:
  "\<not> is_number v \<Longrightarrow> chained_le lo v hi = Inl TypeError"
  by (cases v) (simp_all add: chained_le_def)

lemma range_check_number:
  "map_of r field = Some v \<Longrightarrow> is_number v
     \<Longrightarrow> range_check lo r field hi = Inr (in_closed_interval lo hi v)"
  by (simp add: range_check_def dict_getitem_def chained_le_number)

lemma range_check_not_number:
  "map_of r field = Some v \<Longrightarrow> \<not> is_number v
     \<Longrightarrow> range_check lo r field hi = Inl TypeError"
  by (simp add: range_check_def dict_getitem_def chained_le_not_number)

lemma range_check_outcome:
  "map_of r field = Some v
     \<Longrightarrow> range_check lo r field hi =
           (if is_number v then Inr (in_closed_interval lo hi v) else Inl TypeError)"
  by (simp add: range_check_number range_check_not_number)

lemma validate_Some:
  "validate_weather_record (Some r) =
     (case check_required r required_fields of
        Some b \<Rightarrow> Inr b
      | None \<Rightarrow>
          exc_bind (range_check (-90) r ''latitude'' 90) (\<lambda>lat_ok.
            if \<not> lat_ok then Inr False
            else exc_bind (range_check (-180) r ''longitude'' 180) (\<lambda>lon_ok.
              if \<not> lon_ok then Inr False
              else exc_bind (range_check (-100) r ''temperature'' 60) (\<lambda>temp_ok. Inr temp_ok))))"
  by (simp add: exc_bind_def split: option.splits sum.splits)

subsection \<open>Range validation\<close>

text \<open>
  What the function does on a record whose five required fields are present and
  non-null. The three range checks run in the order latitude, longitude,
  temperature; each one raises \<open>TypeError\<close> on a value that is not a number, and
  returns false on a number outside its closed interval. So the function returns true
  exactly when the three values lie in [-90, 90], [-180, 180] and [-100, 60], the
  bounds included.
\<close>

lemma validate_outcome:
  assumes "map_of r ''timestamp'' = Some ts" and "ts \<noteq> PNone"
    and "map_of r ''latitude'' = Some lat" and "lat \<noteq> PNone"
    and "map_of r ''longitude'' = Some lon" and "lon \<noteq> PNone"
    and "map_of r ''temperature'' = Some temp" and "temp \<noteq> PNone"
    and "map_of r ''city'' = Some city" and "city \<noteq> PNone"
  shows "validate_weather_record (Some r) =
           (if \<not> is_number lat then Inl TypeError
            else if \<not> in_closed_interval (-90) 90 lat then Inr False
            else if \<not> is_number lon then Inl TypeError
            else if \<not> in_closed_interval (-180) 180 lon then Inr False
            else if \<not> is_number temp then Inl TypeError
            else Inr (in_closed_interval (-100) 60 temp))"
proof -
  have "\<forall>field \<in> set required_fields. \<exists>v. map_of r field = Some v \<and> v \<noteq> PNone"
    using assms by (simp add: required_fields_def)
  then have c: "check_required r required_fields = None"
    by (rule check_required_present)
  show ?thesis
    unfolding validate_Some c option.case
      range_check_outcome [OF assms(3)] range_check_outcome [OF assms(5)]
      range_check_outcome [OF assms(7)]
    by simp
qed

text \<open>
  The upper bounds, the lower bounds, and a latitude of 100 beside a longitude that is
  a string: the latitude is rejected before the longitude is compared.
\<close>

lemma validate_at_bounds:
  "validate_weather_record (Some
      [(''timestamp'', PDatetime (Datetime 2025 1 28 10 0 0 0 None)),
       (''latitude'', PInt 90), (''longitude'', PInt 180),
       (''temperature'', PInt 60), (''city'', PStr ''Calgary'')]) = Inr True
   \<and> validate_weather_record (Some
      [(''timestamp'', PDatetime (Datetime 2025 1 28 10 0 0 0 None)),
       (''latitude'', PFloat (Finite (-90))), (''longitude'', PFloat (Finite (-180))),
       (''temperature'', PFloat (Finite (-100))), (''city'', PStr ''Calgary'')]) = Inr True
   \<and> validate_weather_record (Some
      [(''timestamp'', PDatetime (Datetime 2025 1 28 10 0 0 0 None)),
       (''latitude'', PInt 100), (''longitude'', PStr ''abc''),
       (''temperature'', PFloat (Finite (-5.2))), (''city'', PStr ''Calgary'')]) = Inr False"
  using
    validate_outcome [of
      "[(''timestamp'', PDatetime (Datetime 2025 1 28 10 0 0 0 None)),
        (''latitude'', PInt 90), (''longitude'', PInt 180),
        (''temperature'', PInt 60), (''city'', PStr ''Calgary'')]"
      "PDatetime (Datetime 2025 1 28 10 0 0 0 None)" "PInt 90" "PInt 180" "PInt 60"
      "PStr ''Calgary''"]
    validate_outcome [of
      "[(''timestamp'', PDatetime (Datetime 2025 1 28 10 0 0 0 None)),
        (''latitude'', PFloat (Finite (-90))), (''longitude'', PFloat (Finite (-180))),
        (''temperature'', PFloat (Finite (-100))), (''city'', PStr ''Calgary'')]"
      "PDatetime (Datetime 2025 1 28 10 0 0 0 None)" "PFloat (Finite (-90))"
      "PFloat (Finite (-180))" "PFloat (Finite (-100))" "PStr ''Calgary''"]
    validate_outcome [of
      "[(''timestamp'', PDatetime (Datetime 2025 1 28 10 0 0 0 None)),
        (''latitude'', PInt 100), (''longitude'', PStr ''abc''),
        (''temperature'', PFloat (Finite (-5.2))), (''city'', PStr ''Calgary'')]"
      "PDatetime (Datetime 2025 1 28 10 0 0 0 None)" "PInt 100"
      "PStr ''abc''" "PFloat (Finite (-5.2))" "PStr ''Calgary''"]
  by (simp del: validate_weather_record.simps)

text \<open>
  Claim C1. For every record that has all required fields with non-null values,
  \<open>validate_weather_record\<close> returns true if and only if the latitude lies in
  [-90, 90], the longitude in [-180, 180] and the temperature in [-100, 60], the bounds
  included, and any value strictly outside its interval makes it return false.
  The code does not do the last part. In the record below every required field is
  non-null and the longitude 200 lies outside [-180, 180], so the function should
  return false; the latitude is a string, the comparison \<open>-90 <= record["latitude"]\<close>
  raises \<open>TypeError\<close>, and the function returns nothing.
\<close>

theorem validate_outside_raises:
  "validate_weather_record (Some
      [(''timestamp'', PDatetime (Datetime 2025 1 28 10 0 0 0 None)),
       (''latitude'', PStr ''abc''), (''longitude'', PInt 200),
       (''temperature'', PFloat (Finite (-5.2))), (''city'', PStr ''Calgary'')])
   = Inl TypeError"
  by (simp add: required_fields_def range_check_def dict_getitem_def chained_le_def)

subsection \<open>Missing and null fields\<close>

text \<open>
  Claim C4. \<open>validate_weather_record\<close> returns false on the absent record \<open>None\<close>, and
  on every record in which one of the required fields \<open>timestamp\<close>, \<open>latitude\<close>,
  \<open>longitude\<close>, \<open>temperature\<close>, \<open>city\<close> is missing or holds \<open>None\<close>, whatever the other
  fields hold.
\<close>

theorem validate_missing:
  "validate_weather_record None = Inr False \<and>
   (\<forall>field \<in> set required_fields.
      map_of r field = None \<or> map_of r field = Some PNone
        \<longrightarrow> validate_weather_record (Some r) = Inr False)"
  by (simp add: validate_Some check_required_missing del: validate_weather_record.simps(2))

text \<open>A record without \<open>temperature\<close>, and a record whose \<open>latitude\<close> is \<open>None\<close>.\<close>

theorem validate_missing_witness:
  "validate_weather_record (Some
      [(''timestamp'', PDatetime (Datetime 2025 1 28 10 0 0 0 None)),
       (''latitude'', PFloat (Finite 51.0447)), (''longitude'', PFloat (Finite (-114.0719))),
       (''humidity'', PInt 72), (''city'', PStr ''Calgary'')]) = Inr False
   \<and> validate_weather_record (Some
      [(''timestamp'', PDatetime (Datetime 2025 1 28 10 0 0 0 None)),
       (''latitude'', PNone), (''longitude'', PFloat (Finite (-114.0719))),
       (''temperature'', PFloat (Finite (-5.2))), (''city'', PStr ''Calgary'')]) = Inr False"
  using
    validate_missing [of
      "[(''timestamp'', PDatetime (Datetime 2025 1 28 10 0 0 0 None)),
        (''latitude'', PFloat (Finite 51.0447)), (''longitude'', PFloat (Finite (-114.0719))),
        (''humidity'', PInt 72), (''city'', PStr ''Calgary'')]"]
    validate_missing [of
      "[(''timestamp'', PDatetime (Datetime 2025 1 28 10 0 0 0 None)),
        (''latitude'', PNone), (''longitude'', PFloat (Finite (-114.0719))),
        (''temperature'', PFloat (Finite (-5.2))), (''city'', PStr ''Calgary'')]"]
  by (simp add: required_fields_def del: validate_weather_record.simps)

subsection \<open>Fields outside the required set\<close>

text \<open>
  Claim C9. The outcome of \<open>validate_weather_record\<close> depends only on the five
  required fields: two records that agree on \<open>timestamp\<close>, \<open>latitude\<close>, \<open>longitude\<close>,
  \<open>temperature\<close> and \<open>city\<close> get the same outcome, however they differ elsewhere
  (\<open>humidity\<close>, \<open>wind_speed\<close>, \<open>wind_direction\<close>, \<open>weather_code\<close>, \<open>fetch_time\<close>, present
  or not, null or not).
\<close>

theorem validate_independent:
  assumes "\<forall>field \<in> set required_fields. map_of r1 field = map_of r2 field"
  shows "validate_weather_record (Some r1) = validate_weather_record (Some r2)"
proof -
  have c: "check_required r1 required_fields = check_required r2 required_fields"
    using assms by (rule check_required_agree)
  have "map_of r1 ''latitude'' = map_of r2 ''latitude''"
      "map_of r1 ''longitude'' = map_of r2 ''longitude''"
      "map_of r1 ''temperature'' = map_of r2 ''temperature''"
    using assms by (simp_all add: required_fields_def)
  then have rc: "range_check lo r1 ''latitude'' hi = range_check lo r2 ''latitude'' hi"
     "range_check lo r1 ''longitude'' hi = range_check lo r2 ''longitude'' hi"
     "range_check lo r1 ''temperature'' hi = range_check lo r2 ''temperature'' hi" for lo hi
    by (simp_all add: range_check_def dict_getitem_def)
  show ?thesis unfolding validate_Some c rc by (rule refl)
qed

theorem validate_independent_witness:
  "validate_weather_record (Some
      [(''timestamp'', PDatetime (Datetime 2025 1 28 10 0 0 0 None)),
       (''latitude'', PFloat (Finite 51.0447)), (''longitude'', PFloat (Finite (-114.0719))),
       (''temperature'', PFloat (Finite (-5.2))), (''humidity'', PInt 72),
       (''wind_speed'', PFloat (Finite 15.5)), (''wind_direction'', PInt 270),
       (''weather_code'', PInt 3), (''city'', PStr ''Calgary''),
       (''fetch_time'', PDatetime (Datetime 2025 1 28 10 5 0 0 None))])
   = validate_weather_record (Some
      [(''timestamp'', PDatetime (Datetime 2025 1 28 10 0 0 0 None)),
       (''latitude'', PFloat (Finite 51.0447)), (''longitude'', PFloat (Finite (-114.0719))),
       (''temperature'', PFloat (Finite (-5.2))), (''humidity'', PNone),
       (''wind_speed'', PStr ''calm''), (''weather_code'', PInt 99),
       (''city'', PStr ''Calgary'')])"
  by (rule validate_independent) (simp add: required_fields_def)

subsection \<open>Totality\<close>

text \<open>
  Claim C8. \<open>validate_weather_record\<close> is a total predicate: on every record, whatever
  its fields hold, and on the absent record, it returns a boolean and raises nothing.
  The code does not do this. It has no handler of its own, and a record whose required
  fields are all non-null reaches the range checks, where a value that is not a number
  raises \<open>TypeError\<close>: first on a record with a string latitude, then on the record
  that \<open>parse_weather_response\<close> builds from a body whose \<open>temperature_2m\<close> is a
  string.
\<close>

theorem validate_raises:
  "validate_weather_record (Some
      [(''timestamp'', PDatetime (Datetime 2025 1 28 10 0 0 0 None)),
       (''latitude'', PStr ''51.0447''), (''longitude'', PFloat (Finite (-114.0719))),
       (''temperature'', PFloat (Finite (-5.2))), (''city'', PStr ''Calgary'')])
     = Inl TypeError
   \<and> validate_weather_record
       (fst (parse_weather_response (mock_env (Inl ConnectionError))
          [(''latitude'', PFloat (Finite 51.05)),
           (''longitude'', PFloat (Finite (-114.05))),
           (''current'', PDict
              [(''time'', PStr ''2025-01-28T10:00''),
               (''temperature_2m'', PStr ''-5.2''),
               (''relative_humidity_2m'', PInt 72)])]
          ''Calgary''))
     = Inl TypeError"
proof -
  have p: "fst (parse_weather_response (mock_env (Inl ConnectionError))
          [(''latitude'', PFloat (Finite 51.05)),
           (''longitude'', PFloat (Finite (-114.05))),
           (''current'', PDict
              [(''time'', PStr ''2025-01-28T10:00''),
               (''temperature_2m'', PStr ''-5.2''),
               (''relative_humidity_2m'', PInt 72)])]
          ''Calgary'') =
      Some [(''timestamp'', PDatetime (Datetime 2025 1 28 10 0 0 0 None)),
            (''latitude'', PFloat (Finite 51.05)),
            (''longitude'', PFloat (Finite (-114.05))),
            (''temperature'', PStr ''-5.2''),
            (''humidity'', PInt 72),
            (''wind_speed'', PNone),
            (''wind_direction'', PNone),
            (''weather_code'', PNone),
            (''city'', PStr ''Calgary''),
            (''fetch_time'', PDatetime (Datetime 2025 1 28 10 5 1 0 None))]"
    by (simp add: parse_weather_response_def parse_weather_response_try_def mock_env_def
        dict_get_def)
  show ?thesis
    unfolding p
    by (simp add: required_fields_def range_check_def dict_getitem_def chained_le_def)
qed

section \<open>Properties of \<open>get_weather_description\<close>\<close>

text \<open>
  Claim C2, as amended. \<open>get_weather_description\<close> returns the documented string for
  each of the 24 codes of the table (0, 1, 2, 3, 45, 48, 51, 53, 55, 61, 63, 65, 71, 73,
  75, 77, 80, 81, 82, 85, 86, 95, 96, 99), and the string \<open>Unknown\<close> for every other
  integer, negative ones included. It is a total function into strings.
\<close>

theorem get_weather_description_table:
  "get_weather_description 0 = ''Clear sky'' \<and>
   get_weather_description 1 = ''Mainly clear'' \<and>
   get_weather_description 2 = ''Partly cloudy'' \<and>
   get_weather_description 3 = ''Overcast'' \<and>
   get_weather_description 45 = ''Fog'' \<and>
   get_weather_description 48 = ''Depositing rime fog'' \<and>
   get_weather_description 51 = ''Light drizzle'' \<and>
   get_weather_description 53 = ''Moderate drizzle'' \<and>
   get_weather_description 55 = ''Dense drizzle'' \<and>
   get_weather_description 61 = ''Slight rain'' \<and>
   get_weather_description 63 = ''Moderate rain'' \<and>
   get_weather_description 65 = ''Heavy rain'' \<and>
   get_weather_description 71 = ''Slight snow'' \<and>
   get_weather_description 73 = ''Moderate snow'' \<and>
   get_weather_description 75 = ''Heavy snow'' \<and>
   get_weather_description 77 = ''Snow grains'' \<and>
   get_weather_description 80 = ''Slight rain showers'' \<and>
   get_weather_description 81 = ''Moderate rain showers'' \<and>
   get_weather_description 82 = ''Violent rain showers'' \<and>
   get_weather_description 85 = ''Slight snow showers'' \<and>
   get_weather_description 86 = ''Heavy snow showers'' \<and>
   get_weather_description 95 = ''Thunderstorm'' \<and>
   get_weather_description 96 = ''Thunderstorm with slight hail'' \<and>
   get_weather_description 99 = ''Thunderstorm with heavy hail'' \<and>
   (\<forall>c. c \<notin> {0, 1, 2, 3, 45, 48, 51, 53, 55, 61, 63, 65, 71, 73, 75, 77, 80, 81, 82, 85,
              86, 95, 96, 99}
      \<longrightarrow> get_weather_description c = ''Unknown'')"
  by (simp add: get_weather_description_def weather_codes_def)

theorem get_weather_description_table_witness:
  "get_weather_description (-1) = ''Unknown'' \<and> get_weather_description 999 = ''Unknown''"
  using get_weather_description_table by simp

text \<open>
  Claim C2, as stated, counts 23 known codes. The codes that do not map to \<open>Unknown\<close>
  are the 24 keys of the table.
\<close>

lemma known_codes:
  "{c. get_weather_description c \<noteq> ''Unknown''} =
     {0, 1, 2, 3, 45, 48, 51, 53, 55, 61, 63, 65, 71, 73, 75, 77, 80, 81, 82, 85, 86, 95, 96, 99}"
  by (auto simp: get_weather_description_def weather_codes_def split: if_splits)

theorem known_codes_counterexample:
  "card {c. get_weather_description c \<noteq> ''Unknown''} \<noteq> 23"
  unfolding known_codes by simp

section \<open>Properties of \<open>fetch_weather_data\<close>\<close>

text \<open>
  Claim C3. Whatever goes wrong inside \<open>fetch_weather_data\<close> (the HTTP client raises,
  as on a network error or a timeout; \<open>raise_for_status\<close> raises on a non-success
  status; \<open>json\<close> raises on a malformed body; or any other exception arises in the
  \<open>try\<close> block), the function returns \<open>None\<close> to its caller after printing one line:
  the exception does not leave it.
\<close>

theorem fetch_failure_absent:
  "(requests_get env api_url (request_params latitude longitude timezone) timeout = Inl e
    \<or> (\<exists>response.
          requests_get env api_url (request_params latitude longitude timezone) timeout
            = Inr response
          \<and> (raise_for_status response = Some e
             \<or> (raise_for_status response = None \<and> json response = Inl e)))
    \<or> fetch_weather_data_try env latitude longitude city timezone api_url timeout = Inl e)
   \<longrightarrow> fetch_weather_data env latitude longitude city timezone api_url timeout
         = (None, [Print ''Error fetching weather data: '' e])"
proof -
  have "fetch_weather_data_try env latitude longitude city timezone api_url timeout = Inl e"
    if "requests_get env api_url (request_params latitude longitude timezone) timeout = Inl e"
    using that by (simp add: fetch_weather_data_try_def)
  moreover
  have "fetch_weather_data_try env latitude longitude city timezone api_url timeout = Inl e"
    if "requests_get env api_url (request_params latitude longitude timezone) timeout
          = Inr response"
      and "raise_for_status response = Some e
             \<or> (raise_for_status response = None \<and> json response = Inl e)"
    for response
    using that by (auto simp: fetch_weather_data_try_def)
  ultimately show ?thesis
    by (auto simp: fetch_weather_data_def)
qed

text \<open>
  The transport raises (scenario B); the answer has a non-success status (scenario C);
  the body is not JSON; the body is a JSON array.
\<close>

theorem fetch_failure_absent_witness:
  "fetch_weather_data (mock_env (Inl (OtherException ''Connection timeout'')))
      CALGARY_LAT CALGARY_LON ''Calgary'' ''America/Edmonton'' WEATHER_API_URL 10
     = (None, [Print ''Error fetching weather data: '' (OtherException ''Connection timeout'')])
   \<and> fetch_weather_data
        (mock_env (Inr (Response (Some (OtherException ''404 Not Found'')) (Inr PNone))))
        CALGARY_LAT CALGARY_LON ''Calgary'' ''America/Edmonton'' WEATHER_API_URL 10
     = (None, [Print ''Error fetching weather data: '' (OtherException ''404 Not Found'')])
   \<and> fetch_weather_data (mock_env (Inr (Response None (Inl JSONDecodeError))))
        CALGARY_LAT CALGARY_LON ''Calgary'' ''America/Edmonton'' WEATHER_API_URL 10
     = (None, [Print ''Error fetching weather data: '' JSONDecodeError])
   \<and> fetch_weather_data (mock_env (Inr (Response None (Inr (PList [])))))
        CALGARY_LAT CALGARY_LON ''Calgary'' ''America/Edmonton'' WEATHER_API_URL 10
     = (None, [Print ''Error fetching weather data: '' AttributeError])"
  using
    fetch_failure_absent [where env = "mock_env (Inl (OtherException ''Connection timeout''))"
      and latitude = CALGARY_LAT and longitude = CALGARY_LON and city = "''Calgary''"
      and timezone = "''America/Edmonton''" and api_url = WEATHER_API_URL and timeout = 10
      and e = "OtherException ''Connection timeout''"]
    fetch_failure_absent [where
      env = "mock_env (Inr (Response (Some (OtherException ''404 Not Found'')) (Inr PNone)))"
      and latitude = CALGARY_LAT and longitude = CALGARY_LON and city = "''Calgary''"
      and timezone = "''America/Edmonton''" and api_url = WEATHER_API_URL and timeout = 10
      and e = "OtherException ''404 Not Found''"]
    fetch_failure_absent [where env = "mock_env (Inr (Response None (Inl JSONDecodeError)))"
      and latitude = CALGARY_LAT and longitude = CALGARY_LON and city = "''Calgary''"
      and timezone = "''America/Edmonton''" and api_url = WEATHER_API_URL and timeout = 10
      and e = JSONDecodeError]
    fetch_failure_absent [where env = "mock_env (Inr (Response None (Inr (PList []))))"
      and latitude = CALGARY_LAT and longitude = CALGARY_LON and city = "''Calgary''"
      and timezone = "''America/Edmonton''" and api_url = WEATHER_API_URL and timeout = 10
      and e = AttributeError]
  by (simp add: mock_env_def fetch_weather_data_try_def)

text \<open>
  Claim C10. When \<open>fetch_weather_data\<close> returns a record, its \<open>latitude\<close> and
  \<open>longitude\<close> are the arguments of the call, whatever \<open>latitude\<close> and \<open>longitude\<close> the
  body of the answer carries.
\<close>

theorem fetch_uses_arguments:
  assumes "fst (fetch_weather_data env latitude longitude city timezone api_url timeout) = Some r"
  shows "map_of r ''latitude'' = Some latitude \<and> map_of r ''longitude'' = Some longitude"
proof -
  from assms have "fetch_weather_data_try env latitude longitude city timezone api_url timeout = Inr r"
    by (simp add: fetch_weather_data_def split: sum.splits)
  then show ?thesis
    unfolding fetch_weather_data_try_def
    by (auto simp: exc_bind_eq_Inr split: option.splits)
qed

text \<open>
  The answer carries 51.05 and -114.05; the record carries the arguments 51.0447 and
  -114.0719.
\<close>

theorem fetch_uses_arguments_witness:
  "\<exists>r. fst (fetch_weather_data (mock_env (Inr (Response None (Inr (PDict scenario_A_response)))))
             CALGARY_LAT CALGARY_LON ''Calgary'' ''America/Edmonton'' WEATHER_API_URL 10) = Some r
      \<and> map_of r ''latitude'' = Some (PFloat (Finite 51.0447))
      \<and> map_of r ''longitude'' = Some (PFloat (Finite (-114.0719)))"
proof -
  have "\<exists>r. fst (fetch_weather_data
                  (mock_env (Inr (Response None (Inr (PDict scenario_A_response)))))
                  CALGARY_LAT CALGARY_LON ''Calgary'' ''America/Edmonton'' WEATHER_API_URL 10)
             = Some r"
    by (simp add: fetch_weather_data_def fetch_weather_data_try_def mock_env_def
        scenario_A_response_def dict_get_def)
  then obtain r where r:
    "fst (fetch_weather_data (mock_env (Inr (Response None (Inr (PDict scenario_A_response)))))
            CALGARY_LAT CALGARY_LON ''Calgary'' ''America/Edmonton'' WEATHER_API_URL 10) = Some r"
    by blast
  from fetch_uses_arguments [OF r] r show ?thesis
    by (simp add: CALGARY_LAT_def CALGARY_LON_def)
qed

section \<open>Properties of \<open>parse_weather_response\<close>\<close>

text \<open>
  Claim C5. \<open>parse_weather_response\<close> returns \<open>None\<close> on the empty mapping and on the
  mapping whose \<open>current\<close> is the empty mapping; in general it returns \<open>None\<close>, and
  prints nothing, whenever \<open>current\<close> is missing or is the empty mapping.
\<close>

theorem parse_empty_absent:
  "parse_weather_response env [] city = (None, []) \<and>
   parse_weather_response env [(''current'', PDict [])] city = (None, []) \<and>
   (map_of api_response ''current'' = None \<or> map_of api_response ''current'' = Some (PDict [])
      \<longrightarrow> parse_weather_response env api_response city = (None, []))"
  by (auto simp: parse_weather_response_def parse_weather_response_try_def dict_get_def)


text \<open>A response with coordinates and no \<open>current\<close>.\<close>

theorem parse_empty_absent_witness:
  "parse_weather_response (mock_env (Inl ConnectionError))
      [(''latitude'', PFloat (Finite 51.05)), (''longitude'', PFloat (Finite (-114.05)))]
      ''Calgary'' = (None, [])"
  using
    parse_empty_absent [where env = "mock_env (Inl ConnectionError)" and city = "''Calgary''"
      and api_response =
        "[(''latitude'', PFloat (Finite 51.05)), (''longitude'', PFloat (Finite (-114.05)))]"]
  by simp

text \<open>
  Claim C6. Take a response body whose \<open>current\<close> is non-empty, and the call of
  \<open>fetch_weather_data\<close> that receives this body with a success status. Under the same
  clock, \<open>parse_weather_response\<close> on the body and that call either both return
  \<open>None\<close> or both return a record, and the two records have the same \<open>timestamp\<close> (from
  \<open>current.time\<close>, or from the clock when it is absent), the same five readings (\<open>None\<close>
  where \<open>current\<close> lacks one), the same \<open>city\<close> and the same \<open>fetch_time\<close>. They differ
  only in \<open>latitude\<close> and \<open>longitude\<close>: the parser's are the top-level fields of the body
  (\<open>None\<close> when absent), the fetcher's are its arguments.
\<close>

lemma fetch_try_success_path:
  assumes "requests_get env api_url (request_params latitude longitude timezone) timeout
             = Inr response"
    and "raise_for_status response = None"
    and "json response = Inr (PDict api_response)"
    and "dict_get api_response ''current'' (PDict []) = current"
  shows "fetch_weather_data_try env latitude longitude city timezone api_url timeout =
     (exc_bind (py_get current ''time'' (PStr (isoformat env (now env 0)))) (\<lambda>time.
     exc_bind (py_fromisoformat env time) (\<lambda>timestamp.
     exc_bind (py_get current ''temperature_2m'' PNone) (\<lambda>temperature.
     exc_bind (py_get current ''relative_humidity_2m'' PNone) (\<lambda>humidity.
     exc_bind (py_get current ''wind_speed_10m'' PNone) (\<lambda>wind_speed.
     exc_bind (py_get current ''wind_direction_10m'' PNone) (\<lambda>wind_direction.
     exc_bind (py_get current ''weather_code'' PNone) (\<lambda>weather_code.
       Inr [(''timestamp'', PDatetime timestamp),
            (''latitude'', latitude),
            (''longitude'', longitude),
            (''temperature'', temperature),
            (''humidity'', humidity),
            (''wind_speed'', wind_speed),
            (''wind_direction'', wind_direction),
            (''weather_code'', weather_code),
            (''city'', PStr city),
            (''fetch_time'', PDatetime (now env 1))]))))))))"
  by (simp add: fetch_weather_data_try_def assms)

theorem parse_matches_fetch:
  assumes "requests_get env api_url (request_params latitude longitude timezone) timeout
             = Inr response"
    and "raise_for_status response = None"
    and "json response = Inr (PDict api_response)"
    and "map_of api_response ''current'' = Some current"
    and "truthy current"
  shows "fst (fetch_weather_data env latitude longitude city timezone api_url timeout) =
           map_option
             (AList.update ''longitude'' longitude \<circ> AList.update ''latitude'' latitude)
             (fst (parse_weather_response env api_response city))
       \<and> fst (parse_weather_response env api_response city) =
           map_option
             (AList.update ''longitude'' (dict_get api_response ''longitude'' PNone)
                \<circ> AList.update ''latitude'' (dict_get api_response ''latitude'' PNone))
             (fst (fetch_weather_data env latitude longitude city timezone api_url timeout))"
proof -
  have cur: "dict_get api_response ''current'' (PDict []) = current"
    using assms(4) by (simp add: dict_get_def)
  note f = fetch_try_success_path [OF assms(1-3) cur, of city]
  show ?thesis
  proof (cases current)
    case (PDict d)
    show ?thesis
    proof (cases "py_fromisoformat env (dict_get d ''time'' (PStr (isoformat env (now env 0))))")
      case (Inl e)
      then show ?thesis
        using assms(5)
        by (simp add: fetch_weather_data_def parse_weather_response_def
            parse_weather_response_try_def f cur PDict)
    next
      case (Inr ts)
      then show ?thesis
        using assms(5)
        by (simp add: fetch_weather_data_def parse_weather_response_def
            parse_weather_response_try_def f cur PDict)
    qed
  qed (use assms(5) in \<open>simp_all add: fetch_weather_data_def parse_weather_response_def
            parse_weather_response_try_def f cur\<close>)
qed

theorem parse_matches_fetch_witness:
  "fst (fetch_weather_data (mock_env (Inr (Response None (Inr (PDict scenario_A_response)))))
          CALGARY_LAT CALGARY_LON ''Calgary'' ''America/Edmonton'' WEATHER_API_URL 10) =
     map_option (AList.update ''longitude'' CALGARY_LON \<circ> AList.update ''latitude'' CALGARY_LAT)
       (fst (parse_weather_response
               (mock_env (Inr (Response None (Inr (PDict scenario_A_response)))))
               scenario_A_response ''Calgary''))
   \<and> fst (parse_weather_response
             (mock_env (Inr (Response None (Inr (PDict scenario_A_response)))))
             scenario_A_response ''Calgary'') =
     map_option
       (AList.update ''longitude'' (dict_get scenario_A_response ''longitude'' PNone)
          \<circ> AList.update ''latitude'' (dict_get scenario_A_response ''latitude'' PNone))
       (fst (fetch_weather_data
               (mock_env (Inr (Response None (Inr (PDict scenario_A_response)))))
               CALGARY_LAT CALGARY_LON ''Calgary'' ''America/Edmonton'' WEATHER_API_URL 10))"
proof (rule parse_matches_fetch)
  show "requests_get (mock_env (Inr (Response None (Inr (PDict scenario_A_response)))))
          WEATHER_API_URL (request_params CALGARY_LAT CALGARY_LON ''America/Edmonton'') 10
        = Inr (Response None (Inr (PDict scenario_A_response)))"
    by (simp add: mock_env_def)
  show "raise_for_status (Response None (Inr (PDict scenario_A_response))) = None"
    by simp
  show "json (Response None (Inr (PDict scenario_A_response))) = Inr (PDict scenario_A_response)"
    by simp
  show "map_of scenario_A_response ''current'' = Some (PDict
        [(''time'', PStr ''2025-01-28T10:00''),
         (''temperature_2m'', PFloat (Finite (-5.2))),
         (''relative_humidity_2m'', PInt 72),
         (''wind_speed_10m'', PFloat (Finite 15.5)),
         (''wind_direction_10m'', PInt 270),
         (''weather_code'', PInt 3)])"
    by (simp add: scenario_A_response_def)
  show "truthy (PDict
        [(''time'', PStr ''2025-01-28T10:00''),
         (''temperature_2m'', PFloat (Finite (-5.2))),
         (''relative_humidity_2m'', PInt 72),
         (''wind_speed_10m'', PFloat (Finite 15.5)),
         (''wind_direction_10m'', PInt 270),
         (''weather_code'', PInt 3)])"
    by simp
qed

text \<open>
  Claim C7. With city \<open>Calgary\<close>, parsing the raw response of scenario A gives a
  record, not \<open>None\<close>, with temperature -5.2, humidity 72, weather code 3 and city
  \<open>Calgary\<close>; \<open>validate_weather_record\<close> returns true on it; and
  \<open>get_weather_description 3\<close> is \<open>Overcast\<close>. The ISO-8601 decoder is a parameter: it
  is assumed to accept the string \<open>2025-01-28T10:00\<close> of the response.
\<close>

theorem scenario_A:
  assumes "fromisoformat env ''2025-01-28T10:00'' = Some ts"
  shows "fst (parse_weather_response env scenario_A_response ''Calgary'') =
           Some [(''timestamp'', PDatetime ts),
                 (''latitude'', PFloat (Finite 51.05)),
                 (''longitude'', PFloat (Finite (-114.05))),
                 (''temperature'', PFloat (Finite (-5.2))),
                 (''humidity'', PInt 72),
                 (''wind_speed'', PFloat (Finite 15.5)),
                 (''wind_direction'', PInt 270),
                 (''weather_code'', PInt 3),
                 (''city'', PStr ''Calgary''),
                 (''fetch_time'', PDatetime (now env 1))]
       \<and> validate_weather_record (fst (parse_weather_response env scenario_A_response ''Calgary''))
           = Inr True
       \<and> get_weather_description 3 = ''Overcast''"
proof -
  have p: "fst (parse_weather_response env scenario_A_response ''Calgary'') =
           Some [(''timestamp'', PDatetime ts),
                 (''latitude'', PFloat (Finite 51.05)),
                 (''longitude'', PFloat (Finite (-114.05))),
                 (''temperature'', PFloat (Finite (-5.2))),
                 (''humidity'', PInt 72),
                 (''wind_speed'', PFloat (Finite 15.5)),
                 (''wind_direction'', PInt 270),
                 (''weather_code'', PInt 3),
                 (''city'', PStr ''Calgary''),
                 (''fetch_time'', PDatetime (now env 1))]"
    using assms
    by (simp add: parse_weather_response_def parse_weather_response_try_def
        scenario_A_response_def dict_get_def)
  have v: "validate_weather_record (Some [(''timestamp'', PDatetime ts),
                 (''latitude'', PFloat (Finite 51.05)),
                 (''longitude'', PFloat (Finite (-114.05))),
                 (''temperature'', PFloat (Finite (-5.2))),
                 (''humidity'', PInt 72),
                 (''wind_speed'', PFloat (Finite 15.5)),
                 (''wind_direction'', PInt 270),
                 (''weather_code'', PInt 3),
                 (''city'', PStr ''Calgary''),
                 (''fetch_time'', PDatetime (now env 1))]) = Inr True"
    by (simp add: required_fields_def range_check_def dict_getitem_def chained_le_def)
  have d: "get_weather_description 3 = ''Overcast''"
    by (simp add: get_weather_description_def weather_codes_def)
  show ?thesis
    unfolding p v using d by simp
qed

theorem scenario_A_witness:
  "fst (parse_weather_response (mock_env (Inl ConnectionError)) scenario_A_response ''Calgary'') =
           Some [(''timestamp'', PDatetime (Datetime 2025 1 28 10 0 0 0 None)),
                 (''latitude'', PFloat (Finite 51.05)),
                 (''longitude'', PFloat (Finite (-114.05))),
                 (''temperature'', PFloat (Finite (-5.2))),
                 (''humidity'', PInt 72),
                 (''wind_speed'', PFloat (Finite 15.5)),
                 (''wind_direction'', PInt 270),
                 (''weather_code'', PInt 3),
                 (''city'', PStr ''Calgary''),
                 (''fetch_time'', PDatetime (Datetime 2025 1 28 10 5 1 0 None))]
   \<and> validate_weather_record
        (fst (parse_weather_response (mock_env (Inl ConnectionError)) scenario_A_response
                ''Calgary'')) = Inr True
   \<and> get_weather_description 3 = ''Overcast''"
proof -
  have h: "fromisoformat (mock_env (Inl ConnectionError)) ''2025-01-28T10:00''
             = Some (Datetime 2025 1 28 10 0 0 0 None)"
    by (simp add: mock_env_def)
  have n: "now (mock_env (Inl ConnectionError)) 1 = Datetime 2025 1 28 10 5 1 0 None"
    by (simp add: mock_env_def)
  show ?thesis
    using scenario_A [OF h] unfolding n .
qed

end
